theory Spec2Isabelle
  imports Complex_Main
begin

section \<open>Values that cross the service boundary\<close>

text \<open>
  The inference service (\<^verbatim>\<open>7.inference.py\<close>) receives JSON, builds a NumPy array from
  it, hands the array to two loaded artifacts (a fitted scaler and a trained classifier)
  and answers with JSON. JSON values are modelled as Python's \<^verbatim>\<open>json\<close> module parses them:
  integers and floats are distinct, an object keeps its members in document order.
  A float is modelled by the real number it denotes; the handler only compares floats
  with \<open>0.5\<close> and copies them, so no rounding is involved. The non-numbers \<^verbatim>\<open>NaN\<close> and
  \<^verbatim>\<open>Infinity\<close> are outside the model.
\<close>

datatype json =
    JNull
  | JBool bool
  | JInt int
  | JFloat real
  | JStr string
  | JArr "json list"
  | JObj "(string \<times> json) list"

text \<open>
  Exceptions are values. Every constructor stands for a class deriving from Python's
  \<^verbatim>\<open>Exception\<close>, which is what both \<^verbatim>\<open>except Exception as e\<close> clauses of the source catch;
  \<open>RaisedBy c m\<close> is an exception of class \<open>c\<close> with message \<open>m\<close> raised inside a library
  (Flask's \<^verbatim>\<open>BadRequest\<close>, an error of scikit-learn or Keras, an \<^verbatim>\<open>OSError\<close> of a loader).
  The interpreter's own signals (\<^verbatim>\<open>KeyboardInterrupt\<close>, \<^verbatim>\<open>SystemExit\<close>) are not values of
  this type.
\<close>

datatype pyexc =
    KeyError string
  | TypeError string
  | ValueError string
  | IndexError string
  | RaisedBy string string

definition py_repr :: "string \<Rightarrow> string" where
  \<comment> \<open>\<^verbatim>\<open>repr\<close> of a string that holds no quote, backslash or control character\<close>
  "py_repr s = CHR 0x27 # s @ [CHR 0x27]"

fun str_exc :: "pyexc \<Rightarrow> string" where
  \<comment> \<open>\<^verbatim>\<open>str(e)\<close>: a \<^verbatim>\<open>KeyError\<close> prints the \<^verbatim>\<open>repr\<close> of its key, the others their message\<close>
  "str_exc (KeyError k) = py_repr k"
| "str_exc (TypeError m) = m"
| "str_exc (ValueError m) = m"
| "str_exc (IndexError m) = m"
| "str_exc (RaisedBy c m) = m"

section \<open>NumPy arrays\<close>

text \<open>
  An array is its shape and its elements in row-major order. \<^verbatim>\<open>np.array\<close> treats a
  Python list as a sequence and everything else (numbers, strings, booleans, \<^verbatim>\<open>None\<close>,
  dictionaries) as a scalar element. The promotion of the elements to a common dtype is
  not modelled: the cells are the parsed leaves, where NumPy turns the integers of a list
  that also holds floats into floats (rounding those beyond \<open>2^53\<close>). The statements below
  are about the shape of the array, the order of its cells and where it is handed to;
  none is about the value of a promoted cell.
\<close>

record 'a ndarray =
  shape :: "nat list"
  cells :: "'a list"

fun np_flat :: "json \<Rightarrow> json list" where
  "np_flat (JArr xs) = concat (map np_flat xs)"
| "np_flat v = [v]"

fun np_shape :: "json \<Rightarrow> nat list option" where
  \<comment> \<open>shape discovery; \<open>None\<close> when the nested lists are ragged\<close>
  "np_shape (JArr xs) =
     (case map np_shape xs of
        [] \<Rightarrow> Some [0]
      | None # _ \<Rightarrow> None
      | Some s # ss \<Rightarrow>
          if list_all (\<lambda>t. t = Some s) ss then Some (length xs # s) else None)"
| "np_shape v = Some []"

definition NPY_MAXDIMS :: nat where
  \<comment> \<open>32 in NumPy 1.x (64 from NumPy 2.0)\<close>
  "NPY_MAXDIMS = 32"

definition np_array :: "json \<Rightarrow> pyexc + json ndarray" where
  \<comment> \<open>\<^verbatim>\<open>np.array(v)\<close>, NumPy 1.24 and later: a ragged nesting raises\<close>
  "np_array v =
     (case np_shape v of
        None \<Rightarrow>
          Inl (ValueError ''setting an array element with a sequence. The requested array has an inhomogeneous shape.'')
      | Some s \<Rightarrow>
          if NPY_MAXDIMS < length s
          then Inl (ValueError ''setting an array element with a sequence. The requested array would exceed the maximum number of dimension.'')
          else Inr \<lparr>shape = s, cells = np_flat v\<rparr>)"

definition reshape_1_m1 :: "'a ndarray \<Rightarrow> 'a ndarray" where
  \<comment> \<open>\<^verbatim>\<open>a.reshape(1, -1)\<close>: the unknown dimension is the size divided by 1, so it never fails\<close>
  "reshape_1_m1 a = \<lparr>shape = [1, prod_list (shape a)], cells = cells a\<rparr>"

definition greater :: "real ndarray \<Rightarrow> real \<Rightarrow> bool ndarray" where
  \<comment> \<open>\<^verbatim>\<open>a > t\<close>, elementwise\<close>
  "greater a t = \<lparr>shape = shape a, cells = map (\<lambda>x. t < x) (cells a)\<rparr>"

definition astype_int :: "bool ndarray \<Rightarrow> int ndarray" where
  \<comment> \<open>\<^verbatim>\<open>a.astype(int)\<close> on a boolean array\<close>
  "astype_int a = \<lparr>shape = shape a, cells = map (\<lambda>b. if b then 1 else 0) (cells a)\<rparr>"

definition getitem0 :: "'a ndarray \<Rightarrow> pyexc + 'a ndarray" where
  \<comment> \<open>\<^verbatim>\<open>a[0]\<close>; a result of shape \<open>[]\<close> is a NumPy scalar, which cannot be indexed again\<close>
  "getitem0 a =
     (case shape a of
        [] \<Rightarrow> Inl (IndexError ''invalid index to scalar variable.'')
      | n # s \<Rightarrow>
          if n = 0 then Inl (IndexError ''index 0 is out of bounds for axis 0 with size 0'')
          else Inr \<lparr>shape = s, cells = take (prod_list s) (cells a)\<rparr>)"

definition py_scalar :: "'a ndarray \<Rightarrow> pyexc + 'a" where
  \<comment> \<open>\<^verbatim>\<open>int(a)\<close>, \<^verbatim>\<open>float(a)\<close>: the one element of an array of size 1\<close>
  "py_scalar a =
     (if prod_list (shape a) = 1
      then (case cells a of
              x # _ \<Rightarrow> Inr x
            | [] \<Rightarrow> Inl (TypeError ''only length-1 arrays can be converted to Python scalars''))
      else Inl (TypeError ''only length-1 arrays can be converted to Python scalars''))"

section \<open>The loaded artifacts and the process-wide state\<close>

text \<open>
  The scaler and the classifier are objects of external libraries, loaded from files the
  repository does not hold. The source uses three things of each: its truth value
  (\<^verbatim>\<open>not model\<close>), whether it is \<^verbatim>\<open>None\<close>, and one method. A method is a parameter of the
  model: given an array and the state \<open>'w\<close> of everything outside the handler (the
  objects' own internals included) it raises or returns an array, and leaves a state.
\<close>

record 'w scaler_obj =
  scaler_truthy :: bool
  transform :: "json ndarray \<Rightarrow> 'w \<Rightarrow> (pyexc + real ndarray) \<times> 'w"

record 'w model_obj =
  model_truthy :: bool
  model_predict :: "real ndarray \<Rightarrow> 'w \<Rightarrow> (pyexc + real ndarray) \<times> 'w"

record 'w globals =
  model :: "'w model_obj option"
  scaler :: "'w scaler_obj option"

text \<open>
  What the loader finds at an artifact's path: nothing (\<^verbatim>\<open>exists()\<close> is false), a file
  whose load raises, or a file whose load returns an object.
\<close>

datatype 'a on_disk = Absent | Corrupt pyexc | Loadable 'a

definition load_artifacts ::
  "string \<Rightarrow> string \<Rightarrow> 'w model_obj on_disk \<Rightarrow> 'w scaler_obj on_disk \<Rightarrow> 'w globals \<times> string list" where
  \<comment> \<open>the module-level \<^verbatim>\<open>try\<close> block; the second component is what was written to standard output\<close>
  "load_artifacts MODEL_PATH SCALER_PATH model_file scaler_file =
     (case model_file of
        Corrupt e \<Rightarrow>
          (\<lparr>model = None, scaler = None\<rparr>, [''Error loading artifacts: '' @ str_exc e])
      | Loadable m \<Rightarrow>
          (case scaler_file of
             Corrupt e \<Rightarrow>
               (\<lparr>model = Some m, scaler = None\<rparr>,
                [''Model loaded successfully.'', ''Error loading artifacts: '' @ str_exc e])
           | Loadable s \<Rightarrow>
               (\<lparr>model = Some m, scaler = Some s\<rparr>,
                [''Model loaded successfully.'', ''Scaler loaded successfully.''])
           | Absent \<Rightarrow>
               (\<lparr>model = Some m, scaler = None\<rparr>,
                [''Model loaded successfully.'', ''Warning: Scaler not found at '' @ SCALER_PATH]))
      | Absent \<Rightarrow>
          (case scaler_file of
             Corrupt e \<Rightarrow>
               (\<lparr>model = None, scaler = None\<rparr>,
                [''Warning: Model not found at '' @ MODEL_PATH, ''Error loading artifacts: '' @ str_exc e])
           | Loadable s \<Rightarrow>
               (\<lparr>model = None, scaler = Some s\<rparr>,
                [''Warning: Model not found at '' @ MODEL_PATH, ''Scaler loaded successfully.''])
           | Absent \<Rightarrow>
               (\<lparr>model = None, scaler = None\<rparr>,
                [''Warning: Model not found at '' @ MODEL_PATH,
                 ''Warning: Scaler not found at '' @ SCALER_PATH])))"

section \<open>The endpoints\<close>

record response =
  status :: nat
  payload :: json

record request =
  get_json :: "pyexc + json"

definition error_response :: "nat \<Rightarrow> string \<Rightarrow> response" where
  \<comment> \<open>\<^verbatim>\<open>jsonify({'error': msg}), code\<close>\<close>
  "error_response code msg = \<lparr>status = code, payload = JObj [(''error'', JStr msg)]\<rparr>"

definition not_subscriptable :: "string \<Rightarrow> pyexc" where
  "not_subscriptable t = TypeError (py_repr t @ '' object is not subscriptable'')"

fun getitem_features :: "json \<Rightarrow> pyexc + json" where
  \<comment> \<open>\<^verbatim>\<open>data['features']\<close>; of a repeated member the parser keeps the last\<close>
  "getitem_features (JObj kvs) =
     (case map_of (rev kvs) ''features'' of
        None \<Rightarrow> Inl (KeyError ''features'')
      | Some v \<Rightarrow> Inr v)"
| "getitem_features (JArr xs) = Inl (TypeError ''list indices must be integers or slices, not str'')"
| "getitem_features (JStr s) = Inl (TypeError ''string indices must be integers'')"
| "getitem_features JNull = Inl (not_subscriptable ''NoneType'')"
| "getitem_features (JBool b) = Inl (not_subscriptable ''bool'')"
| "getitem_features (JInt i) = Inl (not_subscriptable ''int'')"
| "getitem_features (JFloat r) = Inl (not_subscriptable ''float'')"

definition parse_features :: "request \<Rightarrow> pyexc + json ndarray" where
  \<comment> \<open>lines 49 to 52: \<^verbatim>\<open>np.array(request.get_json(force=True)['features']).reshape(1, -1)\<close>\<close>
  "parse_features req =
     (case get_json req of
        Inl e \<Rightarrow> Inl e
      | Inr data \<Rightarrow>
          (case getitem_features data of
             Inl e \<Rightarrow> Inl e
           | Inr features \<Rightarrow>
               (case np_array features of
                  Inl e \<Rightarrow> Inl e
                | Inr a \<Rightarrow> Inr (reshape_1_m1 a))))"

definition prediction_response :: "int \<Rightarrow> real \<Rightarrow> response" where
  "prediction_response c p =
     \<lparr>status = 200, payload = JObj [(''prediction_class'', JInt c), (''prediction_prob'', JFloat p)]\<rparr>"

definition extract_result :: "real ndarray \<Rightarrow> pyexc + response" where
  \<comment> \<open>lines 59 to 64, in the order Python evaluates them\<close>
  "extract_result prediction_prob =
     (case getitem0 (astype_int (greater prediction_prob 0.5)) of
        Inl e \<Rightarrow> Inl e
      | Inr row \<Rightarrow>
     (case getitem0 row of
        Inl e \<Rightarrow> Inl e
      | Inr prediction_class \<Rightarrow>
     (case py_scalar prediction_class of
        Inl e \<Rightarrow> Inl e
      | Inr c \<Rightarrow>
     (case getitem0 prediction_prob of
        Inl e \<Rightarrow> Inl e
      | Inr prow \<Rightarrow>
     (case getitem0 prow of
        Inl e \<Rightarrow> Inl e
      | Inr p00 \<Rightarrow>
     (case py_scalar p00 of
        Inl e \<Rightarrow> Inl e
      | Inr p \<Rightarrow> Inr (prediction_response c p)))))))"

definition predict_body ::
  "'w model_obj \<Rightarrow> 'w scaler_obj \<Rightarrow> request \<Rightarrow> 'w \<Rightarrow> (pyexc + response) \<times> 'w" where
  \<comment> \<open>the body of the handler's \<^verbatim>\<open>try\<close>; \<open>Inl e\<close> is the exception that leaves it\<close>
  "predict_body m sc req w =
     (case parse_features req of
        Inl e \<Rightarrow> (Inl e, w)
      | Inr input_data \<Rightarrow>
          (case transform sc input_data w of
             (Inl e, w1) \<Rightarrow> (Inl e, w1)
           | (Inr scaled_data, w1) \<Rightarrow>
               (case model_predict m scaled_data w1 of
                  (Inl e, w2) \<Rightarrow> (Inl e, w2)
                | (Inr prediction_prob, w2) \<Rightarrow> (extract_result prediction_prob, w2))))"

definition not_model :: "'w model_obj option \<Rightarrow> bool" where
  \<comment> \<open>\<^verbatim>\<open>not model\<close>: \<^verbatim>\<open>None\<close> is false, an object has its own truth value\<close>
  "not_model mo = (case mo of None \<Rightarrow> True | Some m \<Rightarrow> \<not> model_truthy m)"

definition not_scaler :: "'w scaler_obj option \<Rightarrow> bool" where
  "not_scaler so = (case so of None \<Rightarrow> True | Some sc \<Rightarrow> \<not> scaler_truthy sc)"

definition predict :: "'w globals \<Rightarrow> request \<Rightarrow> 'w \<Rightarrow> response \<times> 'w" where
  \<comment> \<open>the \<^verbatim>\<open>/predict\<close> handler\<close>
  "predict g req w =
     (if not_model (model g) \<or> not_scaler (scaler g)
      then (error_response 500 ''Model or Scaler not initialized'', w)
      else (case predict_body (the (model g)) (the (scaler g)) req w of
              (Inl e, w') \<Rightarrow> (error_response 400 (str_exc e), w')
            | (Inr r, w') \<Rightarrow> (r, w')))"

definition health :: "'w globals \<Rightarrow> response" where
  \<comment> \<open>the \<^verbatim>\<open>/health\<close> handler: \<^verbatim>\<open>model is not None\<close>\<close>
  "health g =
     \<lparr>status = 200,
      payload = JObj [(''status'', JStr ''healthy''), (''model_loaded'', JBool (model g \<noteq> None))]\<rparr>"

section \<open>Vocabulary of the statements\<close>

fun is_list :: "json \<Rightarrow> bool" where
  \<comment> \<open>\<^verbatim>\<open>isinstance(v, list)\<close>\<close>
  "is_list (JArr xs) = True"
| "is_list v = False"

fun is_number :: "json \<Rightarrow> bool" where
  \<comment> \<open>a JSON number\<close>
  "is_number (JInt i) = True"
| "is_number (JFloat r) = True"
| "is_number v = False"

fun cell_real :: "json \<Rightarrow> real" where
  \<comment> \<open>the float a numeric cell is converted to\<close>
  "cell_real (JInt i) = of_int i"
| "cell_real (JFloat r) = r"
| "cell_real v = 0"

text \<open>
  Example artifacts, the inputs of the concrete instances below. \<open>effect\<close> is what a call
  does to the state outside the handler: the identity for an artifact that is only read,
  an entry in a call log otherwise. The example scaler converts the cells to floats and
  accepts every width; the strict one raises, as scikit-learn's fitted scalers do, on a
  matrix whose width is not the one it was fitted on. The example classifier answers one
  row with one column, the sum of the features over ten clipped to \<open>[0, 1]\<close>; the linear
  one answers the same sum unclipped.
\<close>

definition example_scaler :: "('w \<Rightarrow> 'w) \<Rightarrow> 'w scaler_obj" where
  "example_scaler effect =
     \<lparr>scaler_truthy = True,
      transform = (\<lambda>a w. (Inr \<lparr>shape = shape a, cells = map cell_real (cells a)\<rparr>, effect w))\<rparr>"

definition strict_scaler :: "nat \<Rightarrow> ('w \<Rightarrow> 'w) \<Rightarrow> 'w scaler_obj" where
  "strict_scaler n effect =
     \<lparr>scaler_truthy = True,
      transform = (\<lambda>a w.
        if shape a = [1, n]
        then (Inr \<lparr>shape = shape a, cells = map cell_real (cells a)\<rparr>, effect w)
        else (Inl (ValueError ''X has a different number of features than the scaler is expecting''),
              effect w))\<rparr>"

definition example_model :: "('w \<Rightarrow> 'w) \<Rightarrow> 'w model_obj" where
  "example_model effect =
     \<lparr>model_truthy = True,
      model_predict = (\<lambda>a w.
        (Inr \<lparr>shape = [1, 1], cells = [max 0 (min 1 (sum_list (cells a) / 10))]\<rparr>, effect w))\<rparr>"

definition features_request :: "json \<Rightarrow> request" where
  \<comment> \<open>a request whose body is \<^verbatim>\<open>{"features": v}\<close>\<close>
  "features_request v = \<lparr>get_json = Inr (JObj [(''features'', v)])\<rparr>"

definition logged :: "string \<Rightarrow> string list \<Rightarrow> string list" where
  \<comment> \<open>the effect of a call that leaves its name in a call log\<close>
  "logged name w = w @ [name]"

definition example_globals :: "string list globals" where
  "example_globals =
     \<lparr>model = Some (example_model (logged ''predict'')),
      scaler = Some (example_scaler (logged ''transform''))\<rparr>"

definition strict_globals :: "string list globals" where
  \<comment> \<open>a scaler fitted on three columns\<close>
  "strict_globals =
     \<lparr>model = Some (example_model (logged ''predict'')),
      scaler = Some (strict_scaler 3 (logged ''transform''))\<rparr>"



section \<open>Facts about array construction\<close>

lemma is_number_not_list: "is_number v \<Longrightarrow> \<not> is_list v"
  by (cases v) simp_all

lemma np_flat_leaf: "\<not> is_list v \<Longrightarrow> np_flat v = [v]"
  by (cases v) simp_all

lemma np_shape_leaf: "\<not> is_list v \<Longrightarrow> np_shape v = Some []"
  by (cases v) simp_all

lemma np_flat_leaves: "list_all (\<lambda>v. \<not> is_list v) xs \<Longrightarrow> concat (map np_flat xs) = xs"
  by (induction xs) (simp_all add: np_flat_leaf)

lemma np_shape_leaves:
  "list_all (\<lambda>v. \<not> is_list v) xs \<Longrightarrow> np_shape (JArr xs) = Some [length xs]"
proof (cases xs)
  case Nil
  then show ?thesis by simp
next
  case (Cons y ys)
  assume leaves: "list_all (\<lambda>v. \<not> is_list v) xs"
  then have "list_all (\<lambda>t. t = Some []) (map np_shape ys)"
    using Cons by (simp add: list_all_iff np_shape_leaf)
  moreover have "np_shape y = Some []"
    using leaves Cons by (simp add: np_shape_leaf)
  ultimately show ?thesis using Cons by simp
qed

lemma np_flat_no_list: "list_all (\<lambda>v. \<not> is_list v) (np_flat j)"
  by (induction j rule: np_flat.induct) (simp_all add: list_all_iff)

text \<open>The array \<^verbatim>\<open>np.array\<close> builds is well formed: it has as many cells as its shape says.\<close>

lemma np_shape_size: "np_shape j = Some s \<Longrightarrow> length (np_flat j) = prod_list s"
proof (induction j arbitrary: s rule: np_shape.induct)
  case (1 xs)
  show ?case
  proof (cases xs)
    case Nil
    with "1.prems" show ?thesis by auto
  next
    case (Cons y ys)
    with "1.prems" obtain t where t: "np_shape y = Some t"
      and rest: "list_all (\<lambda>u. u = Some t) (map np_shape ys)" and s: "s = length xs # t"
      by (auto split: option.splits if_splits)
    have "\<forall>x \<in> set xs. length (np_flat x) = prod_list t"
      using Cons t rest "1.IH" by (auto simp: list_all_iff)
    then have "map (\<lambda>x. length (np_flat x)) xs = replicate (length xs) (prod_list t)"
      by (simp add: map_replicate_const[symmetric] cong: map_cong)
    then have "length (concat (map np_flat xs)) = length xs * prod_list t"
      by (simp add: length_concat comp_def sum_list_replicate)
    with s show ?thesis by simp
  qed
qed simp_all

lemma np_array_numbers:
  "list_all is_number xs \<Longrightarrow> np_array (JArr xs) = Inr \<lparr>shape = [length xs], cells = xs\<rparr>"
proof -
  assume "list_all is_number xs"
  then have leaves: "list_all (\<lambda>v. \<not> is_list v) xs"
    by (simp add: list_all_iff is_number_not_list)
  show ?thesis
    using np_shape_leaves[OF leaves] np_flat_leaves[OF leaves]
    by (simp add: np_array_def NPY_MAXDIMS_def)
qed

lemma parse_features_numbers:
  assumes "get_json req = Inr data" and "getitem_features data = Inr (JArr xs)"
    and "list_all is_number xs"
  shows "parse_features req = Inr \<lparr>shape = [1, length xs], cells = xs\<rparr>"
  using assms by (simp add: parse_features_def np_array_numbers reshape_1_m1_def)

section \<open>Facts about the handler\<close>

text \<open>With both artifacts loaded and true, the handler is its \<^verbatim>\<open>try\<close> body under the \<^verbatim>\<open>except\<close> clause.\<close>

lemma predict_loaded:
  assumes "model g = Some m" and "scaler g = Some sc" and "model_truthy m" and "scaler_truthy sc"
  shows "predict g req w =
     (case predict_body m sc req w of
        (Inl e, w') \<Rightarrow> (error_response 400 (str_exc e), w')
      | (Inr r, w') \<Rightarrow> (r, w'))"
  using assms by (simp add: predict_def not_model_def not_scaler_def)


lemma parse_features_nested:
  assumes "get_json req = Inr data" and "getitem_features data = Inr f"
    and "np_shape f = Some dims" and "length dims \<le> NPY_MAXDIMS"
  shows "parse_features req = Inr \<lparr>shape = [1, length (np_flat f)], cells = np_flat f\<rparr>"
  using assms by (simp add: parse_features_def np_array_def reshape_1_m1_def np_shape_size)

lemma parse_features_flattened:
  assumes "get_json req = Inr data" and "getitem_features data = Inr (JArr (np_flat f))"
  shows "parse_features req = Inr \<lparr>shape = [1, length (np_flat f)], cells = np_flat f\<rparr>"
  using assms np_shape_leaves[OF np_flat_no_list, of f] np_flat_leaves[OF np_flat_no_list, of f]
  by (simp add: parse_features_def np_array_def reshape_1_m1_def NPY_MAXDIMS_def)

text \<open>The handler reads its request only through the array built from it.\<close>

lemma predict_depends_on_parse:
  assumes "parse_features req = parse_features req'"
  shows "predict g req w = predict g req' w"
  using assms by (simp add: predict_def predict_body_def)

section \<open>The health endpoint and the loader\<close>

text \<open>
  C1. The claim: for every loader outcome \<^verbatim>\<open>/health\<close> reports \<open>model_loaded = true\<close> only when
  both the classifier and the scaler were loaded, and \<open>false\<close> in every degraded start.
  The handler tests \<^verbatim>\<open>model is not None\<close> and never looks at the scaler. What holds: after
  every loader outcome \<^verbatim>\<open>/health\<close> answers 200 with \<open>status = healthy\<close> and with
  \<open>model_loaded\<close> true exactly when the classifier's file was found and its load returned,
  whatever happened to the scaler.
\<close>

theorem health_reports_classifier:
  "health (fst (load_artifacts MODEL_PATH SCALER_PATH model_file scaler_file)) =
     \<lparr>status = 200,
      payload = JObj [(''status'', JStr ''healthy''),
                      (''model_loaded'', JBool (case model_file of Loadable m \<Rightarrow> True | _ \<Rightarrow> False))]\<rparr>"
  by (cases model_file; cases scaler_file) (simp_all add: health_def load_artifacts_def)

text \<open>
  C1 fails as stated when the classifier loads and the scaler's file is missing: the
  scaler is unset, a degraded start, and \<^verbatim>\<open>/health\<close> reports \<open>model_loaded = true\<close>.
\<close>

theorem health_ignores_scaler_counterexample:
  "payload (health (fst (load_artifacts ''artifacts/baseline_model.h5'' ''artifacts/scaler.pkl''
       (Loadable (example_model id :: unit model_obj)) Absent)))
     = JObj [(''status'', JStr ''healthy''), (''model_loaded'', JBool True)]
   \<and> scaler (fst (load_artifacts ''artifacts/baseline_model.h5'' ''artifacts/scaler.pkl''
       (Loadable (example_model id :: unit model_obj)) Absent)) = None"
  by (simp add: health_def load_artifacts_def)

text \<open>
  C2. The claim: when the load of one artifact raises, the error is reported and
  initialisation continues with only that artifact unset; a failure of the classifier's
  load does not keep the scaler from being loaded. Both loads stand in one \<^verbatim>\<open>try\<close> block,
  so an exception of the first leaves the block before the second is reached. What
  holds: an exception of either load is reported on standard output and the loader ends
  normally; when the classifier's load raises both artifacts are unset, whatever is at
  the scaler's path; when the scaler's load raises the scaler is unset and the classifier
  is what its own path gave.
\<close>

theorem load_failure_degrades:
  "load_artifacts MODEL_PATH SCALER_PATH (Corrupt e) scaler_file =
     (\<lparr>model = None, scaler = None\<rparr>, [''Error loading artifacts: '' @ str_exc e])
   \<and> load_artifacts MODEL_PATH SCALER_PATH (Loadable m) (Corrupt e) =
     (\<lparr>model = Some m, scaler = None\<rparr>,
      [''Model loaded successfully.'', ''Error loading artifacts: '' @ str_exc e])
   \<and> load_artifacts MODEL_PATH SCALER_PATH Absent (Corrupt e) =
     (\<lparr>model = None, scaler = None\<rparr>,
      [''Warning: Model not found at '' @ MODEL_PATH, ''Error loading artifacts: '' @ str_exc e])"
  by (simp add: load_artifacts_def)

text \<open>
  C2 fails as stated when the classifier's file cannot be read and the scaler's file is
  sound: the scaler stays unset.
\<close>

theorem classifier_failure_skips_scaler_counterexample:
  "scaler (fst (load_artifacts ''artifacts/baseline_model.h5'' ''artifacts/scaler.pkl''
       (Corrupt (RaisedBy ''OSError'' ''Unable to open file''))
       (Loadable (example_scaler id :: unit scaler_obj)))) = None"
  by (simp add: load_artifacts_def)

section \<open>The predict endpoint\<close>




text \<open>
  C4. When the classifier or the scaler is unset, the endpoint answers with status 500
  and the body \<open>{"error": "Model or Scaler not initialized"}\<close>, whatever the request holds
  (a body that cannot be parsed included) and whatever the artifact that is set would
  do, and the state outside the handler is as it was: nothing was parsed and no method
  of an artifact was called.
\<close>

theorem predict_unavailable:
  assumes "model g = None \<or> scaler g = None"
  shows "predict g req w =
     (\<lparr>status = 500, payload = JObj [(''error'', JStr ''Model or Scaler not initialized'')]\<rparr>, w)"
  using assms by (auto simp: predict_def not_model_def not_scaler_def error_response_def)

text \<open>
  A classifier that logs its calls and no scaler: a body that cannot be parsed and a well
  formed one get the same answer, and the call log stays empty.
\<close>

theorem predict_unavailable_witness:
  "scaler \<lparr>model = Some (example_model (logged ''predict'')), scaler = None\<rparr> = None
   \<and> predict \<lparr>model = Some (example_model (logged ''predict'')), scaler = None\<rparr>
        \<lparr>get_json = Inl (RaisedBy ''BadRequest'' ''400 Bad Request'')\<rparr> []
       = (\<lparr>status = 500, payload = JObj [(''error'', JStr ''Model or Scaler not initialized'')]\<rparr>, [])
   \<and> predict \<lparr>model = Some (example_model (logged ''predict'')), scaler = None\<rparr>
        (features_request (JArr [JInt 2, JInt 3])) []
       = (\<lparr>status = 500, payload = JObj [(''error'', JStr ''Model or Scaler not initialized'')]\<rparr>, [])"
  using predict_unavailable[where g = "\<lparr>model = Some (example_model (logged ''predict'')), scaler = None\<rparr>"
      and req = "\<lparr>get_json = Inl (RaisedBy ''BadRequest'' ''400 Bad Request'')\<rparr>" and w = "[]"]
    predict_unavailable[where g = "\<lparr>model = Some (example_model (logged ''predict'')), scaler = None\<rparr>"
      and req = "features_request (JArr [JInt 2, JInt 3])" and w = "[]"]
  by simp

text \<open>
  C5. The claim: a features array whose length differs from the dimensionality the
  scaler and the classifier expect is always answered with a 400 processing error. The
  handler compares the length with nothing: it reshapes a list of any length \<open>N\<close> to one
  row of \<open>N\<close> columns and hands it on, so whether a length is refused is decided by the
  loaded artifacts. What holds: for a numeric features list of any length, the empty one
  included, if the scaler's \<^verbatim>\<open>transform\<close> raises on the one-row matrix, or the classifier's
  \<^verbatim>\<open>predict\<close> raises on the scaled matrix, then the endpoint answers with status 400 and
  that exception's message under \<open>error\<close>.
\<close>

theorem predict_rejected_width:
  assumes "model g = Some m" and "scaler g = Some sc" and "model_truthy m" and "scaler_truthy sc"
    and "get_json req = Inr data" and "getitem_features data = Inr (JArr xs)"
    and "list_all is_number xs"
    and "transform sc \<lparr>shape = [1, length xs], cells = xs\<rparr> w = (Inl e, w')
       \<or> (\<exists>S w1. transform sc \<lparr>shape = [1, length xs], cells = xs\<rparr> w = (Inr S, w1)
            \<and> model_predict m S w1 = (Inl e, w'))"
  shows "predict g req w = (\<lparr>status = 400, payload = JObj [(''error'', JStr (str_exc e))]\<rparr>, w')"
proof -
  have "predict_body m sc req w = (Inl e, w')"
    using assms(5-8) by (auto simp: predict_body_def parse_features_numbers)
  then show ?thesis using assms(1-4) by (simp add: predict_loaded error_response_def)
qed

text \<open>The empty features list against a scaler fitted on three columns: 400.\<close>

theorem predict_rejected_width_witness:
  "transform (strict_scaler 3 (logged ''transform'')) \<lparr>shape = [1, 0], cells = []\<rparr> []
     = (Inl (ValueError ''X has a different number of features than the scaler is expecting''),
        [''transform''])
   \<and> predict strict_globals (features_request (JArr [])) []
     = (\<lparr>status = 400,
         payload = JObj [(''error'',
           JStr ''X has a different number of features than the scaler is expecting'')]\<rparr>,
        [''transform''])"
  using predict_rejected_width[where g = strict_globals
      and m = "example_model (logged ''predict'')"
      and sc = "strict_scaler 3 (logged ''transform'')"
      and req = "features_request (JArr [])"
      and data = "JObj [(''features'', JArr [])]"
      and xs = "[]" and w = "[]" and w' = "[''transform'']"
      and e = "ValueError ''X has a different number of features than the scaler is expecting''"]
  by (simp add: strict_globals_def example_model_def strict_scaler_def features_request_def
      logged_def)

text \<open>
  C5 fails as stated with artifacts that accept every width. The example pair answers
  200 to a features list of length one and to one of length two, so there is no expected
  dimensionality \<open>N\<close> for which every numeric list of another length is answered with 400.
\<close>

theorem wrong_length_accepted_counterexample:
  "predict example_globals (features_request (JArr [JInt 1])) []
     = (\<lparr>status = 200,
         payload = JObj [(''prediction_class'', JInt 0), (''prediction_prob'', JFloat (1 / 10))]\<rparr>,
        [''transform'', ''predict''])
   \<and> predict example_globals (features_request (JArr [JInt 1, JInt 2])) []
     = (\<lparr>status = 200,
         payload = JObj [(''prediction_class'', JInt 0), (''prediction_prob'', JFloat (3 / 10))]\<rparr>,
        [''transform'', ''predict''])
   \<and> \<not> (\<exists>N. \<forall>xs. list_all is_number xs \<and> length xs \<noteq> N \<longrightarrow>
          status (fst (predict example_globals (features_request (JArr xs)) [])) = 400)"
proof -
  have one: "predict example_globals (features_request (JArr [JInt 1])) []
     = (\<lparr>status = 200,
         payload = JObj [(''prediction_class'', JInt 0), (''prediction_prob'', JFloat (1 / 10))]\<rparr>,
        [''transform'', ''predict''])"
    by (simp add: predict_def not_model_def not_scaler_def predict_body_def parse_features_def
        np_array_def NPY_MAXDIMS_def reshape_1_m1_def extract_result_def getitem0_def greater_def
        astype_int_def py_scalar_def example_globals_def example_model_def example_scaler_def
        features_request_def logged_def prediction_response_def)
  have two: "predict example_globals (features_request (JArr [JInt 1, JInt 2])) []
     = (\<lparr>status = 200,
         payload = JObj [(''prediction_class'', JInt 0), (''prediction_prob'', JFloat (3 / 10))]\<rparr>,
        [''transform'', ''predict''])"
    by (simp add: predict_def not_model_def not_scaler_def predict_body_def parse_features_def
        np_array_def NPY_MAXDIMS_def reshape_1_m1_def extract_result_def getitem0_def greater_def
        astype_int_def py_scalar_def example_globals_def example_model_def example_scaler_def
        features_request_def logged_def prediction_response_def)
  have "\<not> (\<exists>N. \<forall>xs. list_all is_number xs \<and> length xs \<noteq> N \<longrightarrow>
          status (fst (predict example_globals (features_request (JArr xs)) [])) = 400)"
  proof
    assume "\<exists>N. \<forall>xs. list_all is_number xs \<and> length xs \<noteq> N \<longrightarrow>
          status (fst (predict example_globals (features_request (JArr xs)) [])) = 400"
    then obtain N where all: "\<And>xs. list_all is_number xs \<and> length xs \<noteq> N \<Longrightarrow>
          status (fst (predict example_globals (features_request (JArr xs)) [])) = 400"
      by blast
    show False
    proof (cases "N = 1")
      case True
      then show False using all[of "[JInt 1, JInt 2]"] two by simp
    next
      case False
      then show False using all[of "[JInt 1]"] one by simp
    qed
  qed
  with one two show ?thesis by blast
qed

text \<open>
  C6. With both artifacts loaded, an exception (of a class deriving from \<^verbatim>\<open>Exception\<close>, as
  every value of \<open>pyexc\<close> is) raised at any stage of the handler's \<^verbatim>\<open>try\<close> body is
  answered with status 400 and the exception's message under \<open>error\<close>: while reading the
  request and building the one-row array (\<^verbatim>\<open>get_json\<close>, the key lookup, \<^verbatim>\<open>np.array\<close>; the
  reshape itself cannot raise), in the scaler's \<^verbatim>\<open>transform\<close>, in the classifier's
  \<^verbatim>\<open>predict\<close>, and while the label and the probability are taken out of the classifier's
  output. The handler returns a response in each case.
\<close>

theorem predict_error_response:
  assumes "model g = Some m" and "scaler g = Some sc" and "model_truthy m" and "scaler_truthy sc"
    and "(parse_features req = Inl e \<and> w' = w)
       \<or> (\<exists>X. parse_features req = Inr X \<and> transform sc X w = (Inl e, w'))
       \<or> (\<exists>X S w1. parse_features req = Inr X \<and> transform sc X w = (Inr S, w1)
            \<and> model_predict m S w1 = (Inl e, w'))
       \<or> (\<exists>X S w1 P. parse_features req = Inr X \<and> transform sc X w = (Inr S, w1)
            \<and> model_predict m S w1 = (Inr P, w') \<and> extract_result P = Inl e)"
  shows "predict g req w = (\<lparr>status = 400, payload = JObj [(''error'', JStr (str_exc e))]\<rparr>, w')"
proof -
  have "predict_body m sc req w = (Inl e, w')"
    using assms(5) by (auto simp: predict_body_def)
  then show ?thesis using assms(1-4) by (simp add: predict_loaded error_response_def)
qed

text \<open>
  Two stages. A body that cannot be parsed: \<^verbatim>\<open>get_json\<close> raises, answered with 400 and no
  call of an artifact. A classifier that answers an empty matrix: taking the first entry
  raises an \<^verbatim>\<open>IndexError\<close> after both calls, answered with 400.
\<close>

theorem predict_error_response_witness:
  "parse_features \<lparr>get_json = Inl (RaisedBy ''BadRequest'' ''400 Bad Request: Failed to decode JSON object'')\<rparr>
     = Inl (RaisedBy ''BadRequest'' ''400 Bad Request: Failed to decode JSON object'')
   \<and> predict example_globals
        \<lparr>get_json = Inl (RaisedBy ''BadRequest'' ''400 Bad Request: Failed to decode JSON object'')\<rparr> []
     = (\<lparr>status = 400,
         payload = JObj [(''error'', JStr ''400 Bad Request: Failed to decode JSON object'')]\<rparr>, [])
   \<and> extract_result \<lparr>shape = [0, 1], cells = []\<rparr>
     = Inl (IndexError ''index 0 is out of bounds for axis 0 with size 0'')
   \<and> predict \<lparr>model = Some \<lparr>model_truthy = True,
                  model_predict = (\<lambda>a w. (Inr \<lparr>shape = [0, 1], cells = []\<rparr>, logged ''predict'' w))\<rparr>,
               scaler = Some (example_scaler (logged ''transform''))\<rparr>
        (features_request (JArr [JInt 1])) []
     = (\<lparr>status = 400,
         payload = JObj [(''error'', JStr ''index 0 is out of bounds for axis 0 with size 0'')]\<rparr>,
        [''transform'', ''predict''])"
  using predict_error_response[where g = example_globals
      and m = "example_model (logged ''predict'')"
      and sc = "example_scaler (logged ''transform'')"
      and req = "\<lparr>get_json = Inl (RaisedBy ''BadRequest'' ''400 Bad Request: Failed to decode JSON object'')\<rparr>"
      and w = "[]" and w' = "[]"
      and e = "RaisedBy ''BadRequest'' ''400 Bad Request: Failed to decode JSON object''"]
    predict_error_response[where
          g = "\<lparr>model = Some \<lparr>model_truthy = True,
                  model_predict = (\<lambda>a w. (Inr \<lparr>shape = [0, 1], cells = []\<rparr>, logged ''predict'' w))\<rparr>,
               scaler = Some (example_scaler (logged ''transform''))\<rparr>"
      and m = "\<lparr>model_truthy = True,
                  model_predict = (\<lambda>a w. (Inr \<lparr>shape = [0, 1], cells = []\<rparr>, logged ''predict'' w))\<rparr>"
      and sc = "example_scaler (logged ''transform'')"
      and req = "features_request (JArr [JInt 1])"
      and w = "[]" and w' = "[''transform'', ''predict'']"
      and e = "IndexError ''index 0 is out of bounds for axis 0 with size 0''"]
  by (simp add: example_globals_def example_model_def example_scaler_def parse_features_def
      features_request_def np_array_def NPY_MAXDIMS_def reshape_1_m1_def extract_result_def
      getitem0_def greater_def astype_int_def logged_def)

text \<open>
  C7. A numeric features list of length \<open>N\<close> becomes the matrix of one row and \<open>N\<close> columns
  holding the list in order. That matrix goes to the scaler's \<^verbatim>\<open>transform\<close> in the state
  the handler was entered in; the scaler's result goes to the classifier's \<^verbatim>\<open>predict\<close> in
  the state \<^verbatim>\<open>transform\<close> left; the response is built from the classifier's result. When
  \<^verbatim>\<open>transform\<close> raises, \<^verbatim>\<open>predict\<close> is not called.
\<close>

theorem predict_pipeline:
  assumes "model g = Some m" and "scaler g = Some sc" and "model_truthy m" and "scaler_truthy sc"
    and "get_json req = Inr data" and "getitem_features data = Inr (JArr xs)"
    and "list_all is_number xs"
  shows "parse_features req = Inr \<lparr>shape = [1, length xs], cells = xs\<rparr>
       \<and> predict g req w =
           (case transform sc \<lparr>shape = [1, length xs], cells = xs\<rparr> w of
              (Inl e, w1) \<Rightarrow> (error_response 400 (str_exc e), w1)
            | (Inr scaled_data, w1) \<Rightarrow>
                (case model_predict m scaled_data w1 of
                   (Inl e, w2) \<Rightarrow> (error_response 400 (str_exc e), w2)
                 | (Inr prediction_prob, w2) \<Rightarrow>
                     (case extract_result prediction_prob of
                        Inl e \<Rightarrow> (error_response 400 (str_exc e), w2)
                      | Inr r \<Rightarrow> (r, w2))))"
  using assms
  by (simp add: predict_loaded predict_body_def parse_features_numbers
      split: prod.splits sum.splits)

text \<open>Three features: the call log shows \<^verbatim>\<open>transform\<close> before \<^verbatim>\<open>predict\<close>.\<close>

theorem predict_pipeline_witness:
  "list_all is_number [JInt 1, JFloat (5 / 2), JInt 3]
   \<and> parse_features (features_request (JArr [JInt 1, JFloat (5 / 2), JInt 3]))
       = Inr \<lparr>shape = [1, 3], cells = [JInt 1, JFloat (5 / 2), JInt 3]\<rparr>
   \<and> predict example_globals (features_request (JArr [JInt 1, JFloat (5 / 2), JInt 3])) []
       = (prediction_response 1 (13 / 20), [''transform'', ''predict''])"
  using predict_pipeline[where g = example_globals
      and m = "example_model (logged ''predict'')"
      and sc = "example_scaler (logged ''transform'')"
      and req = "features_request (JArr [JInt 1, JFloat (5 / 2), JInt 3])"
      and data = "JObj [(''features'', JArr [JInt 1, JFloat (5 / 2), JInt 3])]"
      and xs = "[JInt 1, JFloat (5 / 2), JInt 3]" and w = "[]"]
  by (simp add: example_globals_def example_model_def example_scaler_def features_request_def
      logged_def extract_result_def getitem0_def greater_def astype_int_def py_scalar_def)




text \<open>
  C9. With both artifacts loaded, a body that is a JSON object with no member
  \<open>features\<close> is answered with 400, not 500: the lookup raises a \<^verbatim>\<open>KeyError\<close>, whose message
  is the key in quotes, and the \<^verbatim>\<open>except\<close> clause turns it into the response. No method of
  an artifact is called.
\<close>

theorem predict_missing_key:
  assumes "model g = Some m" and "scaler g = Some sc" and "model_truthy m" and "scaler_truthy sc"
    and "get_json req = Inr (JObj kvs)" and "''features'' \<notin> fst ` set kvs"
  shows "predict g req w = (error_response 400 (str_exc (KeyError ''features'')), w)"
proof -
  have "map_of (rev kvs) ''features'' = None"
    using assms(6) by (simp add: map_of_eq_None_iff)
  then have "predict_body m sc req w = (Inl (KeyError ''features''), w)"
    using assms(5) by (simp add: predict_body_def parse_features_def)
  then show ?thesis using assms(1-4) by (simp add: predict_loaded)
qed

theorem predict_missing_key_witness:
  "''features'' \<notin> fst ` set [(''feature'', JArr [JInt 1])]
   \<and> predict example_globals \<lparr>get_json = Inr (JObj [(''feature'', JArr [JInt 1])])\<rparr> []
       = (\<lparr>status = 400, payload = JObj [(''error'', JStr (CHR 0x27 # ''features'' @ [CHR 0x27]))]\<rparr>, [])"
  using predict_missing_key[where g = example_globals
      and m = "example_model (logged ''predict'')"
      and sc = "example_scaler (logged ''transform'')"
      and req = "\<lparr>get_json = Inr (JObj [(''feature'', JArr [JInt 1])])\<rparr>"
      and kvs = "[(''feature'', JArr [JInt 1])]" and w = "[]"]
  by (simp add: example_globals_def example_model_def example_scaler_def py_repr_def
      error_response_def)

text \<open>
  C10. A features value that is a nested list of rectangular shape (every list of one
  depth has the same length; at most 32 dimensions, which NumPy 1.x and 2.x both allow)
  is not rejected by the handler. With both artifacts loaded, the array built from it is
  reshaped to one row holding all \<open>N\<close> elements in row-major order, that row is what the
  scaler's \<^verbatim>\<open>transform\<close> is called with, the scaler's result goes to the classifier's
  \<^verbatim>\<open>predict\<close>, and the response and the state left are those of the request that holds
  the flat list of the same elements.
\<close>

theorem predict_nested_as_flat:
  assumes "model g = Some m" and "scaler g = Some sc" and "model_truthy m" and "scaler_truthy sc"
    and "get_json req = Inr data" and "getitem_features data = Inr f"
    and "np_shape f = Some dims" and "length dims \<le> NPY_MAXDIMS"
  shows "parse_features req = Inr \<lparr>shape = [1, length (np_flat f)], cells = np_flat f\<rparr>
       \<and> predict g req w =
           (case transform sc \<lparr>shape = [1, length (np_flat f)], cells = np_flat f\<rparr> w of
              (Inl e, w1) \<Rightarrow> (\<lparr>status = 400, payload = JObj [(''error'', JStr (str_exc e))]\<rparr>, w1)
            | (Inr scaled_data, w1) \<Rightarrow>
                (case model_predict m scaled_data w1 of
                   (Inl e, w2) \<Rightarrow> (\<lparr>status = 400, payload = JObj [(''error'', JStr (str_exc e))]\<rparr>, w2)
                 | (Inr prediction_prob, w2) \<Rightarrow>
                     (case extract_result prediction_prob of
                        Inl e \<Rightarrow> (\<lparr>status = 400, payload = JObj [(''error'', JStr (str_exc e))]\<rparr>, w2)
                      | Inr r \<Rightarrow> (r, w2))))
       \<and> predict g (features_request (JArr (np_flat f))) w = predict g req w"
proof -
  have nested: "parse_features req = Inr \<lparr>shape = [1, length (np_flat f)], cells = np_flat f\<rparr>"
    using assms(5-8) by (rule parse_features_nested)
  have "parse_features (features_request (JArr (np_flat f)))
      = Inr \<lparr>shape = [1, length (np_flat f)], cells = np_flat f\<rparr>"
    by (rule parse_features_flattened[where data = "JObj [(''features'', JArr (np_flat f))]"])
      (simp_all add: features_request_def)
  then have flat: "predict g (features_request (JArr (np_flat f))) w = predict g req w"
    using nested by (simp add: predict_depends_on_parse)
  have "predict g req w =
           (case transform sc \<lparr>shape = [1, length (np_flat f)], cells = np_flat f\<rparr> w of
              (Inl e, w1) \<Rightarrow> (\<lparr>status = 400, payload = JObj [(''error'', JStr (str_exc e))]\<rparr>, w1)
            | (Inr scaled_data, w1) \<Rightarrow>
                (case model_predict m scaled_data w1 of
                   (Inl e, w2) \<Rightarrow> (\<lparr>status = 400, payload = JObj [(''error'', JStr (str_exc e))]\<rparr>, w2)
                 | (Inr prediction_prob, w2) \<Rightarrow>
                     (case extract_result prediction_prob of
                        Inl e \<Rightarrow> (\<lparr>status = 400, payload = JObj [(''error'', JStr (str_exc e))]\<rparr>, w2)
                      | Inr r \<Rightarrow> (r, w2))))"
    using assms(1-4) nested
    by (simp add: predict_loaded predict_body_def error_response_def
        split: prod.splits sum.splits)
  with nested flat show ?thesis by simp
qed

text \<open>
  A two by two list: the scaler is called with the row of its four elements, and the
  answer, 200 with the classifier's output, is that of the flat list.
\<close>

theorem predict_nested_as_flat_witness:
  "np_shape (JArr [JArr [JInt 1, JInt 2], JArr [JInt 3, JInt 4]]) = Some [2, 2]
   \<and> np_flat (JArr [JArr [JInt 1, JInt 2], JArr [JInt 3, JInt 4]]) = [JInt 1, JInt 2, JInt 3, JInt 4]
   \<and> parse_features (features_request (JArr [JArr [JInt 1, JInt 2], JArr [JInt 3, JInt 4]]))
       = Inr \<lparr>shape = [1, 4], cells = [JInt 1, JInt 2, JInt 3, JInt 4]\<rparr>
   \<and> predict example_globals (features_request (JArr [JArr [JInt 1, JInt 2], JArr [JInt 3, JInt 4]])) []
       = (\<lparr>status = 200,
           payload = JObj [(''prediction_class'', JInt 1), (''prediction_prob'', JFloat 1)]\<rparr>,
          [''transform'', ''predict''])
   \<and> predict example_globals (features_request (JArr [JInt 1, JInt 2, JInt 3, JInt 4])) []
       = (\<lparr>status = 200,
           payload = JObj [(''prediction_class'', JInt 1), (''prediction_prob'', JFloat 1)]\<rparr>,
          [''transform'', ''predict''])"
  using predict_nested_as_flat[where g = example_globals
      and m = "example_model (logged ''predict'')"
      and sc = "example_scaler (logged ''transform'')"
      and req = "features_request (JArr [JArr [JInt 1, JInt 2], JArr [JInt 3, JInt 4]])"
      and data = "JObj [(''features'', JArr [JArr [JInt 1, JInt 2], JArr [JInt 3, JInt 4]])]"
      and f = "JArr [JArr [JInt 1, JInt 2], JArr [JInt 3, JInt 4]]"
      and dims = "[2, 2]" and w = "[]"]
  by (simp add: example_globals_def example_model_def example_scaler_def features_request_def
      NPY_MAXDIMS_def logged_def extract_result_def getitem0_def greater_def astype_int_def
      py_scalar_def prediction_response_def)

end
